theory Spec2Isabelle
  imports Complex_Main "HOL-Library.Sublist" "HOL-Library.AList"
begin

section \<open>Python strings and POSIX paths\<close>

text \<open>
  Strings are byte lists. \<open>upper\<close> is \<open>str.upper\<close> on the ASCII letters; no character
  outside ASCII has an upper-case form made of the letters V and H only, so membership
  of an upper-cased name in the four polarization names is decided as Python decides it.
\<close>

definition upper_char :: "char \<Rightarrow> char" where
  "upper_char c =
     (case map_of (zip ''abcdefghijklmnopqrstuvwxyz'' ''ABCDEFGHIJKLMNOPQRSTUVWXYZ'') c of
        None \<Rightarrow> c
      | Some u \<Rightarrow> u)"

definition upper :: "string \<Rightarrow> string" where
  "upper s = map upper_char s"

text \<open>\<open>str_in x s\<close> is Python's \<open>x in s\<close> on strings: \<open>x\<close> occurs in \<open>s\<close> as a block.\<close>

fun str_in :: "string \<Rightarrow> string \<Rightarrow> bool" where
  "str_in x [] = (x = [])"
| "str_in x (c # cs) = (prefix x (c # cs) \<or> str_in x cs)"

text \<open>Truth value of an optional string: \<open>None\<close> and the empty string are false.\<close>

fun truthy :: "string option \<Rightarrow> bool" where
  "truthy None = False"
| "truthy (Some s) = (s \<noteq> [])"

text \<open>\<open>s.split(sep)[0]\<close> and \<open>s.split(sep)[-1]\<close> for a one-character separator.\<close>

definition split_first :: "char \<Rightarrow> string \<Rightarrow> string" where
  "split_first sep s = takeWhile (\<lambda>c. c \<noteq> sep) s"

definition split_last :: "char \<Rightarrow> string \<Rightarrow> string" where
  "split_last sep s = rev (takeWhile (\<lambda>c. c \<noteq> sep) (rev s))"

text \<open>\<open>posixpath.basename\<close>, \<open>posixpath.dirname\<close> and \<open>posixpath.join\<close>.\<close>

definition basename :: "string \<Rightarrow> string" where
  "basename p = rev (takeWhile (\<lambda>c. c \<noteq> CHR ''/'') (rev p))"

definition dirname :: "string \<Rightarrow> string" where
  "dirname p =
     (let head = rev (dropWhile (\<lambda>c. c \<noteq> CHR ''/'') (rev p)) in
      if head \<noteq> [] \<and> \<not> list_all (\<lambda>c. c = CHR ''/'') head
      then rev (dropWhile (\<lambda>c. c = CHR ''/'') (rev head)) else head)"

definition join2 :: "string \<Rightarrow> string \<Rightarrow> string" where
  "join2 a b =
     (if prefix ''/'' b then b
      else if a = [] \<or> last a = CHR ''/'' then a @ b
      else a @ ''/'' @ b)"

definition join :: "string \<Rightarrow> string list \<Rightarrow> string" where
  "join a ps = foldl join2 a ps"

section \<open>Errors\<close>

datatype error =
    ValueError | KeyError | IndexError | TypeError | UnboundLocalError
  | FileNotFoundError | NotADirectoryError | IsADirectoryError | FileExistsError | OSError
  | FormatError | NotFoundError | MissingParameterError | SizeMismatchError
  | CollaboratorError string

section \<open>The scene object\<close>

text \<open>
  One entry of \<open>self.images\<close>: the dictionary built in \<open>binary_to_tiffs\<close>. The key
  \<open>'array'\<close> is absent in low-memory mode, hence the option. The description and the
  pixel array come from the converter and stay abstract.
\<close>

record ('d, 'a) image =
  description :: 'd
  array :: "'a option"
  out_fp :: string
  type :: string

text \<open>
  The attributes of \<open>UavsarScene\<close>. \<open>images\<close> is a Python dict: insertion ordered, and an
  assignment to a key that is present replaces the value in place, which is
  \<open>AList.update\<close>. \<open>out_dir\<close> is only set at the end of \<open>binary_to_tiffs\<close>.
\<close>

record ('d, 'a) scene =
  url :: string
  pair_name :: string
  work_dir :: string
  clean :: bool
  debug :: bool
  low_ram :: bool
  zipped_fp :: "string option"
  ann_fp :: "string option"
  binary_fps :: "string list"
  images :: "(string \<times> ('d, 'a) image) list"
  tmp_dir :: "string option"
  pols :: "string list option"
  out_dir :: "string option"

definition all_pols :: "string list" where
  "all_pols = [''VV'', ''VH'', ''HV'', ''HH'']"

text \<open>
  Lines 40 to 50 of \<open>__init__\<close>. \<open>os.path.expanduser\<close> depends on the environment of
  the process and is a parameter.
\<close>

definition fresh_scene ::
  "(string \<Rightarrow> string) \<Rightarrow> string \<Rightarrow> string \<Rightarrow> bool \<Rightarrow> bool \<Rightarrow> bool \<Rightarrow> ('d, 'a) scene" where
  "fresh_scene expanduser u wd cl dbg lr =
     \<lparr>url = u, pair_name = split_first CHR ''.'' (basename u), work_dir = expanduser wd,
      clean = cl, debug = dbg, low_ram = lr, zipped_fp = None, ann_fp = None,
      binary_fps = [], images = [], tmp_dir = None, pols = None, out_dir = None\<rparr>"

text \<open>
  \<open>__init__\<close>, lines 51 to 58. \<open>if pols:\<close> is false for \<open>None\<close> and for the empty list,
  and then the argument is stored as it is. \<open>set(pols).issubset([...])\<close> holds when
  every upper-cased element is one of the four names.
\<close>

definition init ::
  "(string \<Rightarrow> string) \<Rightarrow> string \<Rightarrow> string \<Rightarrow> bool \<Rightarrow> bool \<Rightarrow> string list option \<Rightarrow> bool
     \<Rightarrow> error + ('d, 'a) scene" where
  "init expanduser u wd cl dbg ps lr =
     (let s = fresh_scene expanduser u wd cl dbg lr in
      case ps of
        None \<Rightarrow> Inr (s\<lparr>pols := None\<rparr>)
      | Some l \<Rightarrow>
          if l \<noteq> [] then
            (let up = map upper l in
             if list_all (\<lambda>p. p \<in> set all_pols) up then Inr (s\<lparr>pols := Some up\<rparr>)
             else Inl ValueError)
          else Inr (s\<lparr>pols := Some l\<rparr>))"

section \<open>The file system and the log\<close>

text \<open>
  The part of the operating system the scene talks to: a tree of directories and files
  without symbolic links, seen by a process whose working directory is the root (a
  relative and an absolute path with the same components name the same entry). An entry
  is kept under its key, the list of names from the root to it; the root, with the empty
  key, is always a directory.
\<close>

fun split_on :: "char \<Rightarrow> string \<Rightarrow> string list" where
  "split_on sep [] = [[]]"
| "split_on sep (c # cs) =
     (if c = sep then [] # split_on sep cs
      else (case split_on sep cs of [] \<Rightarrow> [[c]] | x # xs \<Rightarrow> (c # x) # xs))"

text \<open>The names of a path, in order: empty names and \<open>.\<close> stand for nothing.\<close>

definition path_names :: "string \<Rightarrow> string list" where
  "path_names p = filter (\<lambda>c. c \<noteq> [] \<and> c \<noteq> ''.'') (split_on CHR ''/'' p)"

text \<open>One step of path resolution: \<open>..\<close> goes up (the root is its own parent).\<close>

definition step :: "string list \<Rightarrow> string \<Rightarrow> string list" where
  "step cur c = (if c = ''..'' then butlast cur else cur @ [c])"

text \<open>The key a path leads to, when every directory on the way is there.\<close>

definition components :: "string \<Rightarrow> string list" where
  "components p = foldl step [] (path_names p)"

datatype fs_entry = Dir | File string

type_synonym filesystem = "(string list \<times> fs_entry) list"

definition entry :: "filesystem \<Rightarrow> string list \<Rightarrow> fs_entry option" where
  "entry fs k = (if k = [] then Some Dir else map_of fs k)"

text \<open>
  Path resolution: each name is looked up in the directory reached so far, which must
  exist (\<open>ENOENT\<close> otherwise) and be a directory (\<open>ENOTDIR\<close> otherwise). The last name
  need not exist. The empty path names nothing.
\<close>

fun walk :: "filesystem \<Rightarrow> string list \<Rightarrow> string list \<Rightarrow> error + string list" where
  "walk fs cur [] = Inr cur"
| "walk fs cur (c # cs) =
     (case entry fs cur of
        None \<Rightarrow> Inl FileNotFoundError
      | Some (File x) \<Rightarrow> Inl NotADirectoryError
      | Some Dir \<Rightarrow> walk fs (step cur c) cs)"

definition locate :: "filesystem \<Rightarrow> string \<Rightarrow> error + string list" where
  "locate fs p = (if p = [] then Inl FileNotFoundError else walk fs [] (path_names p))"

text \<open>A path that ends in \<open>/\<close> or in \<open>/.\<close> names a directory or nothing.\<close>

definition needs_dir :: "string \<Rightarrow> bool" where
  "needs_dir p = (last (split_on CHR ''/'' p) = [] \<or> last (split_on CHR ''/'' p) = ''.'')"

text \<open>What a path names (\<open>os.stat\<close>), if anything.\<close>

definition lookup :: "filesystem \<Rightarrow> string \<Rightarrow> fs_entry option" where
  "lookup fs p =
     (case locate fs p of
        Inl e \<Rightarrow> None
      | Inr k \<Rightarrow>
          (case entry fs k of
             None \<Rightarrow> None
           | Some Dir \<Rightarrow> Some Dir
           | Some (File c) \<Rightarrow> if needs_dir p then None else Some (File c)))"

text \<open>\<open>os.path.exists\<close>.\<close>

definition path_exists :: "filesystem \<Rightarrow> string \<Rightarrow> bool" where
  "path_exists fs p = (lookup fs p \<noteq> None)"

text \<open>\<open>os.mkdir\<close>: the directory above must be there, the path itself must not.\<close>

definition mkdir :: "filesystem \<Rightarrow> string \<Rightarrow> error option \<times> filesystem" where
  "mkdir fs p =
     (case locate fs p of
        Inl e \<Rightarrow> (Some e, fs)
      | Inr k \<Rightarrow>
          (case entry fs k of
             None \<Rightarrow> (None, fs @ [(k, Dir)])
           | Some e \<Rightarrow> (Some FileExistsError, fs)))"

text \<open>
  \<open>os.makedirs(name)\<close> as \<open>os.py\<close> has it: \<open>head, tail = path.split(name)\<close>, split
  again when the tail is empty; a missing head is created first, a \<open>FileExistsError\<close>
  of that recursive call is passed over; then \<open>mkdir(name)\<close>, unless the tail is
  \<open>.\<close>. What was created stays when the call fails.
\<close>

definition split_head :: "string \<Rightarrow> string" where
  "split_head name = (if basename name = [] then dirname (dirname name) else dirname name)"

definition split_tail :: "string \<Rightarrow> string" where
  "split_tail name = (if basename name = [] then basename (dirname name) else basename name)"

function makedirs :: "filesystem \<Rightarrow> string \<Rightarrow> error option \<times> filesystem" where
  "makedirs fs name =
     (if split_head name \<noteq> [] \<and> split_tail name \<noteq> [] \<and> \<not> path_exists fs (split_head name)
      then
        (case makedirs fs (split_head name) of
           (None, fs1) \<Rightarrow> if split_tail name = ''.'' then (None, fs1) else mkdir fs1 name
         | (Some e, fs1) \<Rightarrow>
             if e = FileExistsError
             then (if split_tail name = ''.'' then (None, fs1) else mkdir fs1 name)
             else (Some e, fs1))
      else mkdir fs name)"
  by pat_completeness auto
termination
proof (relation "measure (\<lambda>(fs, name). length name)")
  show "wf (measure (\<lambda>(fs, name). length name))" by simp
next
  fix fs :: filesystem and name :: string
  assume a: "split_head name \<noteq> [] \<and> split_tail name \<noteq> [] \<and> \<not> path_exists fs (split_head name)"
  have le0: "length (dirname x) \<le> length (dropWhile (\<lambda>c. c \<noteq> CHR ''/'') (rev x))" for x
    by (simp add: dirname_def Let_def length_dropWhile_le)
  have le: "length (dirname x) \<le> length x" for x
    using le0 [of x] length_dropWhile_le [of "\<lambda>c. c \<noteq> CHR ''/''" "rev x"] by simp
  have lt: "length (dirname x) < length x" if "basename x \<noteq> []" for x
  proof -
    from that have "takeWhile (\<lambda>c. c \<noteq> CHR ''/'') (rev x) \<noteq> []"
      by (simp add: basename_def)
    then have "length (dropWhile (\<lambda>c. c \<noteq> CHR ''/'') (rev x)) < length (rev x)"
      by (metis length_append less_add_same_cancel2 length_greater_0_conv
          takeWhile_dropWhile_id)
    with le0 [of x] show ?thesis by simp
  qed
  from a have "length (split_head name) < length name"
    using lt [of name] lt [of "dirname name"] le [of name]
    by (auto simp: split_head_def split_tail_def split: if_splits)
  then show "((fs, split_head name), (fs, name)) \<in> measure (\<lambda>(fs, name). length name)"
    by simp
qed

declare makedirs.simps [simp del]

text \<open>
  \<open>shutil.rmtree\<close>: removes the directory and everything below it. The root itself
  cannot be removed: its content goes, then the call fails.
\<close>

definition rmtree :: "filesystem \<Rightarrow> string \<Rightarrow> error option \<times> filesystem" where
  "rmtree fs p =
     (case locate fs p of
        Inl e \<Rightarrow> (Some e, fs)
      | Inr k \<Rightarrow>
          (case entry fs k of
             None \<Rightarrow> (Some FileNotFoundError, fs)
           | Some (File c) \<Rightarrow> (Some NotADirectoryError, fs)
           | Some Dir \<Rightarrow>
               (if k = [] then Some OSError else None,
                filter (\<lambda>(q, e). \<not> prefix k q) fs)))"

text \<open>\<open>os.listdir\<close>: the names (not the paths) of the entries of a directory.\<close>

definition listdir :: "filesystem \<Rightarrow> string \<Rightarrow> error + string list" where
  "listdir fs d =
     (case locate fs d of
        Inl e \<Rightarrow> Inl e
      | Inr k \<Rightarrow>
          (case entry fs k of
             None \<Rightarrow> Inl FileNotFoundError
           | Some (File c) \<Rightarrow> Inl NotADirectoryError
           | Some Dir \<Rightarrow>
               Inr (map (\<lambda>(q, e). last q)
                      (filter (\<lambda>(q, e). q \<noteq> [] \<and> butlast q = k) fs))))"

text \<open>The world outside the object: the files, and what \<open>log.warning\<close> has written.\<close>

record world =
  files :: filesystem
  warnings :: "string list"

definition warning :: "string \<Rightarrow> world \<Rightarrow> world" where
  "warning msg w = w\<lparr>warnings := warnings w @ [msg]\<rparr>"

text \<open>
  \<open>if not os.path.exists(out_dir): os.makedirs(out_dir)\<close>. A failure comes with the
  world as \<open>makedirs\<close> left it.
\<close>

definition ensure_dir :: "world \<Rightarrow> string \<Rightarrow> error \<times> world + world" where
  "ensure_dir w p =
     (if \<not> path_exists (files w) p
      then (case makedirs (files w) p of
              (None, fs) \<Rightarrow> Inr (w\<lparr>files := fs\<rparr>)
            | (Some e, fs) \<Rightarrow> Inl (e, w\<lparr>files := fs\<rparr>))
      else Inr w)"

section \<open>Collaborators\<close>

text \<open>
  \<open>download_zip\<close>, \<open>unzip\<close> and \<open>grd_tiff_convert\<close> are imported from modules of the
  package that are not part of the sources at hand. The scene's methods take them as
  parameters: a collaborator sees the world and its arguments, and returns either an
  error or its value, together with the world it leaves behind.
\<close>

type_synonym downloader = "world \<Rightarrow> string \<Rightarrow> string \<Rightarrow> (error + string) \<times> world"

type_synonym unzipper =
  "world \<Rightarrow> string option \<Rightarrow> string \<Rightarrow> string list option \<Rightarrow> (error + string list) \<times> world"

text \<open>
  \<open>grd_tiff_convert(f, out_dir, ann_fp, overwrite, debug)\<close> returns
  \<open>(desc, array, type, out_fp)\<close>.
\<close>

type_synonym ('d, 'a) converter =
  "world \<Rightarrow> string \<Rightarrow> string \<Rightarrow> string \<Rightarrow> bool \<Rightarrow> bool
     \<Rightarrow> (error + 'd \<times> 'a \<times> string \<times> string) \<times> world"

section \<open>The scene's operations\<close>

text \<open>
  Every method returns the exception it raised, if any, the object and the world as
  they are when it returns or raises.
\<close>

definition download ::
  "downloader \<Rightarrow> ('d, 'a) scene \<Rightarrow> world \<Rightarrow> string \<Rightarrow> error option \<times> ('d, 'a) scene \<times> world" where
  "download download_zip s w sub_dir =
     (let odir = join (work_dir s) [sub_dir, pair_name s];
          s1 = s\<lparr>tmp_dir := Some odir\<rparr> in
      case ensure_dir w odir of
        Inl (e, w1) \<Rightarrow> (Some e, s1, w1)
      | Inr w1 \<Rightarrow>
          if split_last CHR ''.'' (url s1) = ''zip'' then
            (case download_zip w1 (url s1) odir of
               (Inl e, w2) \<Rightarrow> (Some e, s1, w2)
             | (Inr z, w2) \<Rightarrow> (None, s1\<lparr>zipped_fp := Some z\<rparr>, w2))
          else
            (None, s1,
             warning ''UavsarScene for zip files. Using UavsarImage for single images.'' w1))"

definition unzip ::
  "unzipper \<Rightarrow> ('d, 'a) scene \<Rightarrow> world \<Rightarrow> string option \<Rightarrow> string
     \<Rightarrow> error option \<times> ('d, 'a) scene \<times> world" where
  "unzip unzip_files s w in_dir sub_dir =
     (let (in_dir1, w1) =
            (if \<not> truthy in_dir then
               (if \<not> truthy (zipped_fp s)
                then (in_dir, warning ''No known zip file for this scene. Please provide.'' w)
                else (zipped_fp s, w))
             else (in_dir, w)) in
      case tmp_dir s of
        None \<Rightarrow> (Some TypeError, s, w1)
      | Some t \<Rightarrow>
          (let odir = join t [sub_dir] in
           case ensure_dir w1 odir of
             Inl (e, w2) \<Rightarrow> (Some e, s, w2)
           | Inr w2 \<Rightarrow>
               (case unzip_files w2 in_dir1 odir (pols s) of
                  (Inl e, w3) \<Rightarrow> (Some e, s, w3)
                | (Inr fps, w3) \<Rightarrow> (None, s\<lparr>binary_fps := fps\<rparr>, w3))))"

text \<open>
  Lines 120 to 125: the annotation file of each polarization, the first one whose path
  contains the polarization's name.
\<close>

definition ann_dict :: "string list \<Rightarrow> (string \<times> string) list" where
  "ann_dict ann_fps =
     List.map_filter
       (\<lambda>pol. case filter (str_in pol) ann_fps of [] \<Rightarrow> None | x # xs \<Rightarrow> Some (pol, x))
       all_pols"

text \<open>\<open>xs[0]\<close>\<close>

definition first_item :: "'x list \<Rightarrow> error + 'x" where
  "first_item xs = (case xs of [] \<Rightarrow> Inl IndexError | x # ys \<Rightarrow> Inr x)"

text \<open>
  One round of the loop of lines 132 to 142. The loop carries the local \<open>ann_fp\<close>,
  \<open>self.images\<close> and the world. \<open>ann_fps\<close> and \<open>ann_dic\<close> are bound only when line 119
  found no \<open>ann_fp\<close> argument: \<open>env\<close> is \<open>None\<close> otherwise, and reading \<open>ann_dic\<close>
  raises. The call passes \<open>overwrite = True\<close>.
\<close>

type_synonym ('d, 'a) loop_state = "string option \<times> (string \<times> ('d, 'a) image) list \<times> world"

definition new_image :: "bool \<Rightarrow> 'd \<Rightarrow> 'a \<Rightarrow> string \<Rightarrow> string \<Rightarrow> ('d, 'a) image" where
  "new_image lr desc arr ty ofp =
     (if lr then \<lparr>description = desc, array = None, out_fp = ofp, type = ty\<rparr>
      else \<lparr>description = desc, array = Some arr, out_fp = ofp, type = ty\<rparr>)"

fun convert_file ::
  "('d, 'a) converter \<Rightarrow> bool \<Rightarrow> bool \<Rightarrow> string
     \<Rightarrow> (string list \<times> (string \<times> string) list) option \<Rightarrow> string
     \<Rightarrow> ('d, 'a) loop_state \<Rightarrow> error option \<times> ('d, 'a) loop_state" where
  "convert_file conv lr dbg odir env f (a, imgs, w) =
     (case env of
        None \<Rightarrow> (Some UnboundLocalError, (a, imgs, w))
      | Some (ann_fps, ann_dic) \<Rightarrow>
          (case (if ann_dic \<noteq> [] then
                   (case first_item (filter (\<lambda>pol. str_in pol (basename f)) all_pols) of
                      Inl e \<Rightarrow> Inl e
                    | Inr f_pol \<Rightarrow>
                        (case map_of ann_dic f_pol of
                           None \<Rightarrow> Inl KeyError
                         | Some x \<Rightarrow> Inr (Some x)))
                 else Inr a) of
             Inl e \<Rightarrow> (Some e, (a, imgs, w))
           | Inr a1 \<Rightarrow>
               (case (case a1 of
                        None \<Rightarrow> first_item ann_fps
                      | Some x \<Rightarrow> if x \<noteq> [] then Inr x else first_item ann_fps) of
                  Inl e \<Rightarrow> (Some e, (a1, imgs, w))
                | Inr a2 \<Rightarrow>
                    (case conv w f odir a2 True dbg of
                       (Inl e, w') \<Rightarrow> (Some e, (Some a2, imgs, w'))
                     | (Inr (desc, arr, ty, ofp), w') \<Rightarrow>
                         (None,
                          (Some a2, AList.update ty (new_image lr desc arr ty ofp) imgs, w'))))))"

fun convert_files ::
  "('d, 'a) converter \<Rightarrow> bool \<Rightarrow> bool \<Rightarrow> string
     \<Rightarrow> (string list \<times> (string \<times> string) list) option \<Rightarrow> string list
     \<Rightarrow> ('d, 'a) loop_state \<Rightarrow> error option \<times> ('d, 'a) loop_state" where
  "convert_files conv lr dbg odir env [] st = (None, st)"
| "convert_files conv lr dbg odir env (f # fs) st =
     (case convert_file conv lr dbg odir env f st of
        (Some e, st') \<Rightarrow> (Some e, st')
      | (None, st') \<Rightarrow> convert_files conv lr dbg odir env fs st')"

text \<open>
  \<open>binary_to_tiffs\<close>, lines 106 to 112. Without a \<open>binary_dir\<close> argument nothing
  that is read later changes: line 108 assigns the local \<open>binary_dir\<close>, which is not
  used again, and line 110 builds an \<open>Exception\<close> object and drops it. With a
  \<open>binary_dir\<close> argument the file list becomes the names in that directory.
\<close>

definition list_binaries ::
  "('d, 'a) scene \<Rightarrow> world \<Rightarrow> string option \<Rightarrow> error + ('d, 'a) scene" where
  "list_binaries s w binary_dir =
     (case binary_dir of
        None \<Rightarrow> Inr s
      | Some d \<Rightarrow>
          if d \<noteq> [] then
            (case listdir (files w) d of
               Inl e \<Rightarrow> Inl e
             | Inr names \<Rightarrow> Inr (s\<lparr>binary_fps := names\<rparr>))
          else Inr s)"

text \<open>
  Lines 119 to 142: the annotation files, the warning when there is none, and the loop
  over the binary files.
\<close>

definition convert_all ::
  "('d, 'a) converter \<Rightarrow> ('d, 'a) scene \<Rightarrow> world \<Rightarrow> string \<Rightarrow> string option
     \<Rightarrow> error option \<times> ('d, 'a) loop_state" where
  "convert_all conv s w odir ann =
     (let ann_fps = filter (str_in ''.ann'') (binary_fps s);
          env = (if \<not> truthy ann then Some (ann_fps, ann_dict ann_fps) else None);
          w1 = (if \<not> truthy ann \<and> ann_fps = []
                then warning ''No annotation file found for binary files.'' w
                else w);
          binary_img_fps = filter (\<lambda>f. \<not> str_in ''.ann'' f) (binary_fps s) in
      convert_files conv (low_ram s) (debug s) odir env binary_img_fps (ann, images s, w1))"

text \<open>Lines 145 and 146: \<open>dirname(None)\<close> raises \<open>TypeError\<close>.\<close>

definition clean_up ::
  "('d, 'a) scene \<Rightarrow> world \<Rightarrow> error option \<times> ('d, 'a) scene \<times> world" where
  "clean_up s w =
     (if clean s then
        (case tmp_dir s of
           None \<Rightarrow> (Some TypeError, s, w)
         | Some t \<Rightarrow>
             (case rmtree (files w) (dirname t) of
                (er, fs) \<Rightarrow> (er, s, w\<lparr>files := fs\<rparr>)))
      else (None, s, w))"

text \<open>\<open>binary_to_tiffs\<close> as a whole.\<close>

definition binary_to_tiffs ::
  "('d, 'a) converter \<Rightarrow> ('d, 'a) scene \<Rightarrow> world \<Rightarrow> string option \<Rightarrow> string option
     \<Rightarrow> error option \<times> ('d, 'a) scene \<times> world" where
  "binary_to_tiffs conv s w binary_dir ann =
     (case list_binaries s w binary_dir of
        Inl e \<Rightarrow> (Some e, s, w)
      | Inr s1 \<Rightarrow>
          (let odir = join (work_dir s1) [pair_name s1] in
           case ensure_dir w odir of
             Inl (e, w1) \<Rightarrow> (Some e, s1, w1)
           | Inr w1 \<Rightarrow>
               (case convert_all conv s1 w1 odir ann of
                  (Some e, (a, imgs, w2)) \<Rightarrow> (Some e, s1\<lparr>images := imgs\<rparr>, w2)
                | (None, (a, imgs, w2)) \<Rightarrow>
                    clean_up (s1\<lparr>images := imgs, out_dir := Some odir\<rparr>) w2)))"

section \<open>Properties asked of a converter\<close>

text \<open>
  A converter keeps to its output directory when no entry outside the directory it is
  given changes, whether it returns or raises.
\<close>

definition writes_below :: "('d, 'a) converter \<Rightarrow> bool" where
  "writes_below conv =
     (\<forall>w f odir a ow dbg q.
        \<not> prefix (components odir) q \<longrightarrow>
        map_of (files (snd (conv w f odir a ow dbg))) q = map_of (files w) q)"


text \<open>
  A small converter to run the scene's operations on concrete inputs. It wants the
  binary file and the annotation file to exist, copies the binary file to
  \<open>out_dir/<name>.tiff\<close>, and reports the annotation text, the bytes, and as product
  type the last but one dot-separated part of the file's name
  (\<open>cor\<close> for \<open>p_HH.cor.grd\<close>).
\<close>

definition product_of :: "string \<Rightarrow> string" where
  "product_of f =
     (let parts = split_on CHR ''.'' (basename f) in
      if length parts < 2 then [] else parts ! (length parts - 2))"

definition example_convert :: "(string, string) converter" where
  "example_convert w f odir a ow dbg =
     (let ofp = odir @ ''/'' @ basename f @ ''.tiff'' in
      case lookup (files w) f of
        Some (File bs) \<Rightarrow>
          (case lookup (files w) a of
             Some (File txt) \<Rightarrow>
               if path_exists (files w) ofp \<and> \<not> ow then (Inl FileExistsError, w)
               else if lookup (files w) ofp = Some Dir then (Inl IsADirectoryError, w)
               else
                 (case locate (files w) ofp of
                    Inl e \<Rightarrow> (Inl e, w)
                  | Inr k \<Rightarrow>
                      (Inr (txt, bs, product_of f, ofp),
                       w\<lparr>files := AList.update k (File bs) (files w)\<rparr>))
           | Some Dir \<Rightarrow> (Inl NotFoundError, w)
           | None \<Rightarrow> (Inl NotFoundError, w))
      | Some Dir \<Rightarrow> (Inl NotFoundError, w)
      | None \<Rightarrow> (Inl NotFoundError, w))"

section \<open>Conversion components\<close>

text \<open>
  The georeferencing resolver, the binary reader and the raster writer belong to
  \<open>uavsar_pytools/convert/tiff_conversion.py\<close>, which is not among the sources at
  hand. Every definition of this section is written from sections 2, 3, 4.2, 4.3, 4.4
  and 8 of the specification.
\<close>

text \<open>
  Modelled from the spec: the Annotation Record (3): parameter key to (value, unit). The
  parameters the resolver and the reader use are numbers (an integer is the real of the
  same value); the record is kept with its numeric parameters, the string-valued ones
  (4.1) play no part in georeferencing.
\<close>

type_synonym annotation = "string \<rightharpoonup> real \<times> string"

text \<open>
  Modelled from the spec: the Georeference (3): reference system identifier and affine transform
  (origin x/y, pixel size x/y).
\<close>

record georeference =
  crs :: string
  origin_x :: real
  origin_y :: real
  pixel_size_x :: real
  pixel_size_y :: real

text \<open>
  Modelled from the spec: \<open>resolve(record)\<close> (4.2). Origin = (starting longitude, starting
  latitude), pixel size = (column spacing, - row spacing); \<open>MissingParameterError\<close> when
  a required key is absent. The keys are named as in the scenario of section 8; the
  reference system is the WGS84 of the docstring of \<open>binary_to_tiffs\<close>.
\<close>

definition resolve :: "annotation \<Rightarrow> error + georeference" where
  "resolve r =
     (case r ''rows'' of None \<Rightarrow> Inl MissingParameterError | Some (nr, u1) \<Rightarrow>
     (case r ''columns'' of None \<Rightarrow> Inl MissingParameterError | Some (nc, u2) \<Rightarrow>
     (case r ''row_spacing'' of None \<Rightarrow> Inl MissingParameterError | Some (rs, u3) \<Rightarrow>
     (case r ''column_spacing'' of None \<Rightarrow> Inl MissingParameterError | Some (cs, u4) \<Rightarrow>
     (case r ''start_lat'' of None \<Rightarrow> Inl MissingParameterError | Some (lat, u5) \<Rightarrow>
     (case r ''start_lon'' of None \<Rightarrow> Inl MissingParameterError | Some (lon, u6) \<Rightarrow>
        Inr \<lparr>crs = ''WGS84'', origin_x = lon, origin_y = lat,
             pixel_size_x = cs, pixel_size_y = - rs\<rparr>))))))"

text \<open>
  Modelled from the spec: the pixel format of a Product Descriptor (3): real or complex, with the
  bit width of one component.
\<close>

datatype pixel_format = RealPx nat | ComplexPx nat

text \<open>
  Modelled from the spec: the byte order of a Product Descriptor (3).
\<close>

datatype byte_order = LittleEndian | BigEndian

text \<open>
  Modelled from the spec: the Product Descriptor (3).
\<close>

record descriptor =
  product_type :: string
  rows :: nat
  columns :: nat
  order :: byte_order
  pixel_format :: pixel_format
  is_multi_band :: bool

text \<open>
  Modelled from the spec: bytes per pixel; a complex pixel is a real and an imaginary component
  (section 8: 4-byte real + 4-byte imaginary are 8 bytes per pixel).
\<close>

fun bytes_per_pixel :: "pixel_format \<Rightarrow> nat" where
  "bytes_per_pixel (RealPx b) = b div 8"
| "bytes_per_pixel (ComplexPx b) = 2 * (b div 8)"

text \<open>
  Modelled from the spec: the Pixel Array (3), as its shape and its pixels in row-major order, each
  pixel the bytes read for it.
\<close>

record pixel_array =
  shape :: "nat list"
  pixels :: "string list"

text \<open>
  Modelled from the spec: the bytes of a file cut into pixels of \<open>n\<close> bytes (4.3).
\<close>

fun chunks :: "nat \<Rightarrow> 'x list \<Rightarrow> 'x list list" where
  "chunks n xs = (if n = 0 \<or> xs = [] then [] else take n xs # chunks n (drop n xs))"

text \<open>
  Modelled from the spec: the band count (4.3): determined by the product type for a multi-band
  product, by a table the specification does not give (parameter \<open>band_count\<close>).
\<close>

definition bands :: "(string \<Rightarrow> nat) \<Rightarrow> descriptor \<Rightarrow> nat" where
  "bands band_count d = (if is_multi_band d then band_count (product_type d) else 1)"

text \<open>
  Modelled from the spec: the file size the reader expects (4.3): rows * columns * bytes per pixel
  (* band count).
\<close>

definition expected_size :: "(string \<Rightarrow> nat) \<Rightarrow> descriptor \<Rightarrow> nat" where
  "expected_size band_count d =
     rows d * columns d * bytes_per_pixel (pixel_format d) * bands band_count d"

text \<open>
  Modelled from the spec: \<open>read(binary_file_path, descriptor)\<close> (4.3): \<open>NotFoundError\<close> for a missing
  file, \<open>SizeMismatchError\<close> for a file of another size than expected.
\<close>

definition read :: "(string \<Rightarrow> nat) \<Rightarrow> filesystem \<Rightarrow> string \<Rightarrow> descriptor \<Rightarrow> error + pixel_array" where
  "read band_count fs path d =
     (case lookup fs path of
        Some (File bs) \<Rightarrow>
          if length bs \<noteq> expected_size band_count d then Inl SizeMismatchError
          else Inr \<lparr>shape = (if is_multi_band d
                             then [bands band_count d, rows d, columns d]
                             else [rows d, columns d]),
                    pixels = chunks (bytes_per_pixel (pixel_format d)) bs\<rparr>
      | Some Dir \<Rightarrow> Inl NotFoundError
      | None \<Rightarrow> Inl NotFoundError)"

text \<open>
  Modelled from the spec: the encoding of a raster file (4.4): pixel datatype and nodata value by
  product type, embedded reference system and transform. Left open as a parameter.
\<close>

type_synonym encoder = "pixel_array \<Rightarrow> georeference \<Rightarrow> string \<Rightarrow> string"

text \<open>
  Modelled from the spec: \<open>write(array, georeference, output_path, product_type)\<close> (4.4) with the
  caller's overwrite permission. Parent directories are created if absent; a directory
  is no output raster.
\<close>

definition write_raster ::
  "encoder \<Rightarrow> filesystem \<Rightarrow> pixel_array \<Rightarrow> georeference \<Rightarrow> string \<Rightarrow> string \<Rightarrow> bool
     \<Rightarrow> (error + string) \<times> filesystem" where
  "write_raster encode fs arr geo path ptype overwrite =
     (if path_exists fs path \<and> \<not> overwrite then (Inl FileExistsError, fs)
      else if lookup fs path = Some Dir then (Inl IsADirectoryError, fs)
      else
        (case (if dirname path = [] \<or> path_exists fs (dirname path) then (None, fs)
               else makedirs fs (dirname path)) of
           (Some e, fs1) \<Rightarrow> (Inl e, fs1)
         | (None, fs1) \<Rightarrow>
             (case locate fs1 path of
                Inl e \<Rightarrow> (Inl e, fs1)
              | Inr k \<Rightarrow> (Inr path, AList.update k (File (encode arr geo ptype)) fs1))))"

text \<open>
  Modelled from the spec: the data flow for one binary file with its parsed annotation record (2):
  resolver, then reader, then writer.
\<close>

definition convert_product ::
  "(string \<Rightarrow> nat) \<Rightarrow> encoder \<Rightarrow> filesystem \<Rightarrow> string \<Rightarrow> annotation \<Rightarrow> descriptor \<Rightarrow> string
     \<Rightarrow> bool \<Rightarrow> (error + annotation \<times> pixel_array \<times> string \<times> string) \<times> filesystem" where
  "convert_product band_count encode fs path r d out_path overwrite =
     (case resolve r of
        Inl e \<Rightarrow> (Inl e, fs)
      | Inr geo \<Rightarrow>
          (case read band_count fs path d of
             Inl e \<Rightarrow> (Inl e, fs)
           | Inr arr \<Rightarrow>
               (case write_raster encode fs arr geo out_path (product_type d) overwrite of
                  (Inl e, fs1) \<Rightarrow> (Inl e, fs1)
                | (Inr p, fs1) \<Rightarrow> (Inr (r, arr, product_type d, p), fs1))))"

text \<open>
  Modelled from the spec: the annotation record of the scenario of section 8.
\<close>

definition scenario_record :: annotation where
  "scenario_record =
     map_of [(''rows'', (4, ''-'')), (''columns'', (3, ''-'')),
             (''row_spacing'', (1 / 10000, ''deg'')),
             (''column_spacing'', (1 / 10000, ''deg'')),
             (''start_lat'', (36, ''deg'')),
             (''start_lon'', (- 119, ''deg''))]"

text \<open>
  Modelled from the spec: the descriptor of the scenario of section 8: a complex-valued product of
  4 by 3 pixels with 8 bytes per pixel.
\<close>

definition scenario_descriptor :: descriptor where
  "scenario_descriptor =
     \<lparr>product_type = ''int'', rows = 4, columns = 3, order = LittleEndian,
      pixel_format = ComplexPx 32, is_multi_band = False\<rparr>"

text \<open>
  Modelled from the spec: a file system where the output raster is already there (4.4).
\<close>

definition scenario_files :: filesystem where
  "scenario_files = [([''o''], Dir), ([''o'', ''p.tiff''], File ''old'')]"

section \<open>A scene on disk\<close>

text \<open>
  Concrete inputs to run the operations on: the work directory \<open>w\<close> of two scenes,
  \<open>p\<close> and \<open>q\<close>. Scene \<open>p\<close> is downloaded and unzipped: its archive and its binary
  and annotation files lie under \<open>w/tmp/p\<close>, where \<open>download\<close> and \<open>unzip\<close> put them
  (there is no annotation file for the polarization HV). Scene \<open>q\<close> has its archive
  under \<open>w/tmp/q\<close> and one converted raster under \<open>w/q\<close>.
\<close>

definition example_files :: filesystem where
  "example_files =
     [([''w''], Dir), ([''w'', ''tmp''], Dir),
      ([''w'', ''q''], Dir),
      ([''w'', ''q'', ''q_HH.cor.grd.tiff''], File ''raster q''),
      ([''w'', ''tmp'', ''q''], Dir),
      ([''w'', ''tmp'', ''q'', ''q.zip''], File ''zip q''),
      ([''w'', ''tmp'', ''p''], Dir),
      ([''w'', ''tmp'', ''p'', ''p.zip''], File ''zip p''),
      ([''w'', ''tmp'', ''p'', ''bin_imgs''], Dir),
      ([''w'', ''tmp'', ''p'', ''bin_imgs'', ''p_HH.cor.grd''], File ''hh''),
      ([''w'', ''tmp'', ''p'', ''bin_imgs'', ''p_HH.int.grd''], File ''hh int''),
      ([''w'', ''tmp'', ''p'', ''bin_imgs'', ''p_HV.cor.grd''], File ''hv''),
      ([''w'', ''tmp'', ''p'', ''bin_imgs'', ''p_VV.cor.grd''], File ''vv''),
      ([''w'', ''tmp'', ''p'', ''bin_imgs'', ''p_HH.ann''], File ''ann hh''),
      ([''w'', ''tmp'', ''p'', ''bin_imgs'', ''p_VV.ann''], File ''ann vv'')]"

definition example_world :: world where
  "example_world = \<lparr>files = example_files, warnings = []\<rparr>"

text \<open>Scene \<open>p\<close> after \<open>download\<close> and \<open>unzip\<close>, with the list of files \<open>unzip\<close> returned.\<close>

definition example_scene :: "bool \<Rightarrow> bool \<Rightarrow> string list \<Rightarrow> (string, string) scene" where
  "example_scene cl lr fps =
     (fresh_scene id ''http://host/p.zip'' ''w'' cl False lr)
       \<lparr>zipped_fp := Some ''w/tmp/p/p.zip'', tmp_dir := Some ''w/tmp/p'', binary_fps := fps\<rparr>"


text \<open>Two products of one polarization.\<close>

definition two_product_fps :: "string list" where
  "two_product_fps =
     [''w/tmp/p/bin_imgs/p_HH.cor.grd'', ''w/tmp/p/bin_imgs/p_HH.int.grd'',
      ''w/tmp/p/bin_imgs/p_HH.ann'']"


section \<open>Polarization filter\<close>

lemma upper_all_pols: "p \<in> set all_pols \<Longrightarrow> upper p = p"
  by (auto simp: all_pols_def upper_def upper_char_def)

lemma map_upper_all_pols: "list_all (\<lambda>p. p \<in> set all_pols) l \<Longrightarrow> map upper l = l"
  by (induction l) (simp_all add: upper_all_pols)

lemma init_filter:
  "init e u wd cl dbg (Some l) lr =
     (if list_all (\<lambda>p. upper p \<in> set all_pols) l
      then Inr ((fresh_scene e u wd cl dbg lr)\<lparr>pols := Some (map upper l)\<rparr>)
      else Inl ValueError)"
  by (cases l) (simp_all add: init_def Let_def list_all_iff)

lemma upper_VV: "upper ''vv'' = ''VV''" and upper_Hh: "upper ''Hh'' = ''HH''"
  and upper_xx: "upper ''xx'' = ''XX''"
  by (simp_all add: upper_def upper_char_def)

text \<open>
  C7, as stated, fails: the filter \<open>['vv']\<close> has an element outside
  \<open>{VV, VH, HV, HH}\<close>, and construction does not raise \<open>ValueError\<close>.
\<close>

theorem polarization_filter_lowercase_accepted:
  "''vv'' \<notin> set all_pols \<and>
   (init id ''http://host/pair.zip'' ''w'' True False (Some [''vv'']) False
      :: error + (unit, unit) scene) \<noteq> Inl ValueError"
  by (simp add: init_filter all_pols_def upper_VV)

text \<open>
  C7, amended: the elements are upper-cased before the check. A filter list with an
  element whose upper-case form is outside \<open>{VV, VH, HV, HH}\<close> makes construction fail
  with \<open>ValueError\<close>; a filter list whose elements are all in the set makes it succeed,
  and the list is stored.
\<close>

theorem polarization_filter_checked_after_upper:
  "(\<not> list_all (\<lambda>p. upper p \<in> set all_pols) l \<longrightarrow>
      init e u wd cl dbg (Some l) lr = Inl ValueError) \<and>
   (list_all (\<lambda>p. p \<in> set all_pols) l \<longrightarrow>
      init e u wd cl dbg (Some l) lr = Inr ((fresh_scene e u wd cl dbg lr)\<lparr>pols := Some l\<rparr>))"
proof (intro conjI impI)
  assume "\<not> list_all (\<lambda>p. upper p \<in> set all_pols) l"
  then show "init e u wd cl dbg (Some l) lr = Inl ValueError"
    by (simp add: init_filter)
next
  assume a: "list_all (\<lambda>p. p \<in> set all_pols) l"
  then have "list_all (\<lambda>p. upper p \<in> set all_pols) l"
    by (simp add: list_all_iff upper_all_pols)
  with a show "init e u wd cl dbg (Some l) lr =
      Inr ((fresh_scene e u wd cl dbg lr)\<lparr>pols := Some l\<rparr>)"
    by (simp add: init_filter map_upper_all_pols)
qed

theorem polarization_filter_checked_after_upper_witness:
  "\<not> list_all (\<lambda>p. upper p \<in> set all_pols) [''HH'', ''xx''] \<and>
   (init id ''http://host/pair.zip'' ''w'' True False (Some [''HH'', ''xx'']) False
      :: error + (unit, unit) scene) = Inl ValueError \<and>
   list_all (\<lambda>p. p \<in> set all_pols) [''HH'', ''VV''] \<and>
   (init id ''http://host/pair.zip'' ''w'' True False (Some [''HH'', ''VV'']) False
      :: error + (unit, unit) scene) =
     Inr ((fresh_scene id ''http://host/pair.zip'' ''w'' True False False)
            \<lparr>pols := Some [''HH'', ''VV'']\<rparr>)"
proof -
  have bad: "\<not> list_all (\<lambda>p. upper p \<in> set all_pols) [''HH'', ''xx'']"
    by (simp add: all_pols_def upper_xx)
  have good: "list_all (\<lambda>p. p \<in> set all_pols) [''HH'', ''VV'']"
    by (simp add: all_pols_def)
  from bad good
    polarization_filter_checked_after_upper
      [of "[''HH'', ''xx'']" id "''http://host/pair.zip''" "''w''" True False False]
    polarization_filter_checked_after_upper
      [of "[''HH'', ''VV'']" id "''http://host/pair.zip''" "''w''" True False False]
  show ?thesis by blast
qed

text \<open>
  C10: the polarization filter is case-insensitive. For every list of strings whose
  upper-case forms all lie in \<open>{VV, VH, HV, HH}\<close>, construction succeeds and stores the
  upper-case forms.
\<close>

theorem polarization_filter_case_insensitive:
  "list_all (\<lambda>p. upper p \<in> set all_pols) l \<Longrightarrow>
   init e u wd cl dbg (Some l) lr =
     Inr ((fresh_scene e u wd cl dbg lr)\<lparr>pols := Some (map upper l)\<rparr>)"
  by (simp add: init_filter)

theorem polarization_filter_case_insensitive_witness:
  "list_all (\<lambda>p. upper p \<in> set all_pols) [''vv'', ''Hh''] \<and>
   (init id ''http://host/pair.zip'' ''w'' True False (Some [''vv'', ''Hh'']) False
      :: error + (unit, unit) scene) =
     Inr ((fresh_scene id ''http://host/pair.zip'' ''w'' True False False)
            \<lparr>pols := Some [''VV'', ''HH'']\<rparr>)"
proof -
  have ok: "list_all (\<lambda>p. upper p \<in> set all_pols) [''vv'', ''Hh'']"
    by (simp add: all_pols_def upper_VV upper_Hh)
  from ok
    polarization_filter_case_insensitive
      [OF ok, of id "''http://host/pair.zip''" "''w''" True False False]
  show ?thesis by (simp add: upper_VV upper_Hh)
qed
section \<open>Paths and entries\<close>

lemma walk_key: "walk fs cur cs = Inr k \<Longrightarrow> k = foldl step cur cs"
  by (induction cs arbitrary: cur) (auto split: option.splits fs_entry.splits)

lemma locate_key: "locate fs p = Inr k \<Longrightarrow> k = components p"
  by (auto simp: locate_def components_def split: if_splits dest: walk_key)

lemma entry_update:
  "k \<noteq> [] \<Longrightarrow> entry (AList.update k v fs) q = (if q = k then Some v else entry fs q)"
  by (simp add: entry_def update_conv')

lemma entry_File_key: "entry fs k = Some (File c) \<Longrightarrow> k \<noteq> []"
  by (auto simp: entry_def split: if_splits)

lemma walk_update_file:
  assumes "entry fs k = Some (File old)"
  shows "walk (AList.update k (File new) fs) cur cs = walk fs cur cs"
proof (induction cs arbitrary: cur)
  case Nil
  show ?case by simp
next
  case (Cons c cs)
  from assms have k: "k \<noteq> []" by (rule entry_File_key)
  show ?case
  proof (cases "cur = k")
    case True
    with assms k show ?thesis by (simp add: entry_update)
  next
    case False
    with k Cons show ?thesis
      by (simp add: entry_update split: option.splits fs_entry.splits)
  qed
qed

lemma lookup_File:
  "lookup fs p = Some (File c) \<Longrightarrow>
   locate fs p = Inr (components p) \<and> entry fs (components p) = Some (File c) \<and> \<not> needs_dir p"
  by (auto simp: lookup_def split: sum.splits option.splits fs_entry.splits if_splits
      dest: locate_key)

lemma lookup_update_file:
  assumes "lookup fs p = Some (File old)"
  shows "lookup (AList.update (components p) (File new) fs) p = Some (File new)"
proof -
  note f = lookup_File [OF assms]
  from f have k: "components p \<noteq> []" by (auto dest: entry_File_key)
  from f have "locate (AList.update (components p) (File new) fs) p = Inr (components p)"
    by (auto simp: locate_def walk_update_file split: if_splits)
  with f k show ?thesis by (simp add: lookup_def entry_update)
qed

section \<open>Conversion components: georeferencing, reading, writing\<close>

declare chunks.simps [simp del]

lemma length_chunks: "0 < n \<Longrightarrow> length xs = k * n \<Longrightarrow> length (chunks n xs) = k"
proof (induction k arbitrary: xs)
  case 0
  then show ?case by (simp add: chunks.simps)
next
  case (Suc k)
  then have ne: "xs \<noteq> []" by auto
  have "length (drop n xs) = k * n" using Suc.prems by simp
  then have "length (chunks n (drop n xs)) = k" using Suc by blast
  moreover have "chunks n xs = take n xs # chunks n (drop n xs)"
    using ne Suc.prems(1) by (subst chunks.simps) simp
  ultimately show ?case by simp
qed

lemma chunks_width:
  "0 < n \<Longrightarrow> length xs = k * n \<Longrightarrow> list_all (\<lambda>c. length c = n) (chunks n xs)"
proof (induction k arbitrary: xs)
  case 0
  then show ?case by (simp add: chunks.simps)
next
  case (Suc k)
  then have ne: "xs \<noteq> []" by auto
  have "length (drop n xs) = k * n" using Suc.prems by simp
  then have "list_all (\<lambda>c. length c = n) (chunks n (drop n xs))" using Suc by blast
  moreover have "chunks n xs = take n xs # chunks n (drop n xs)"
    using ne Suc.prems(1) by (subst chunks.simps) simp
  moreover have "length (take n xs) = n" using Suc.prems by simp
  ultimately show ?case by simp
qed

lemma scenario_keys:
  "scenario_record ''rows'' = Some (4, ''-'')"
  "scenario_record ''columns'' = Some (3, ''-'')"
  "scenario_record ''row_spacing'' = Some (1 / 10000, ''deg'')"
  "scenario_record ''column_spacing'' = Some (1 / 10000, ''deg'')"
  "scenario_record ''start_lat'' = Some (36, ''deg'')"
  "scenario_record ''start_lon'' = Some (- 119, ''deg'')"
  by (simp_all add: scenario_record_def)



text \<open>
  C8: a binary file whose size differs from rows * columns * bytes per pixel * band
  count makes \<open>read\<close> fail with \<open>SizeMismatchError\<close>, and the conversion of that
  file leaves the file system as it was; a file whose size matches is read into an array
  of shape (rows, columns), or (bands, rows, columns) for a multi-band product, with one
  pixel of the declared width per position.
\<close>

theorem read_checks_size:
  assumes "lookup fs path = Some (File bs)"
  shows "(length bs \<noteq> expected_size bc d \<longrightarrow>
            read bc fs path d = Inl SizeMismatchError \<and>
            snd (convert_product bc enc fs path r d out ow) = fs \<and>
            (resolve r = Inr geo \<longrightarrow>
               fst (convert_product bc enc fs path r d out ow) = Inl SizeMismatchError)) \<and>
         (length bs = expected_size bc d \<longrightarrow>
            read bc fs path d =
              Inr \<lparr>shape = (if is_multi_band d then [bands bc d, rows d, columns d]
                             else [rows d, columns d]),
                   pixels = chunks (bytes_per_pixel (pixel_format d)) bs\<rparr> \<and>
            (0 < bytes_per_pixel (pixel_format d) \<longrightarrow>
               length (chunks (bytes_per_pixel (pixel_format d)) bs) =
                 bands bc d * rows d * columns d \<and>
               list_all (\<lambda>px. length px = bytes_per_pixel (pixel_format d))
                 (chunks (bytes_per_pixel (pixel_format d)) bs)))"
proof (intro conjI impI)
  assume ne: "length bs \<noteq> expected_size bc d"
  with assms show rd: "read bc fs path d = Inl SizeMismatchError"
    by (simp add: read_def)
  then show "snd (convert_product bc enc fs path r d out ow) = fs"
    by (simp add: convert_product_def split: sum.splits)
  assume "resolve r = Inr geo"
  with rd show "fst (convert_product bc enc fs path r d out ow) = Inl SizeMismatchError"
    by (simp add: convert_product_def)
next
  assume eq: "length bs = expected_size bc d"
  with assms show "read bc fs path d =
      Inr \<lparr>shape = (if is_multi_band d then [bands bc d, rows d, columns d]
                     else [rows d, columns d]),
           pixels = chunks (bytes_per_pixel (pixel_format d)) bs\<rparr>"
    by (simp add: read_def)
  assume pos: "0 < bytes_per_pixel (pixel_format d)"
  from eq have len: "length bs = (bands bc d * rows d * columns d) * bytes_per_pixel (pixel_format d)"
    by (simp add: expected_size_def mult_ac)
  from length_chunks [OF pos len]
  show "length (chunks (bytes_per_pixel (pixel_format d)) bs) = bands bc d * rows d * columns d" .
  from chunks_width [OF pos len]
  show "list_all (\<lambda>px. length px = bytes_per_pixel (pixel_format d))
          (chunks (bytes_per_pixel (pixel_format d)) bs)" .
qed

lemma expected_scenario: "expected_size bc scenario_descriptor = 96"
  by (simp add: expected_size_def scenario_descriptor_def bands_def)

lemma lookup_scenario:
  "lookup [([''d''], Dir), ([''d'', ''p.int''], File bs)] ''d/p.int'' = Some (File bs)"
  by code_simp

theorem read_checks_size_witness:
  "lookup [([''d''], Dir), ([''d'', ''p.int''], File (replicate 90 CHR ''a''))] ''d/p.int'' =
     Some (File (replicate 90 CHR ''a'')) \<and>
   length (replicate 90 CHR ''a'') \<noteq> expected_size (\<lambda>t. 1) scenario_descriptor \<and>
   read (\<lambda>t. 1) [([''d''], Dir), ([''d'', ''p.int''], File (replicate 90 CHR ''a''))]
     ''d/p.int'' scenario_descriptor = Inl SizeMismatchError \<and>
   convert_product (\<lambda>t. 1) (\<lambda>arr geo t. ''tiff'')
     [([''d''], Dir), ([''d'', ''p.int''], File (replicate 90 CHR ''a''))] ''d/p.int''
     scenario_record scenario_descriptor ''o/p.int.tiff'' True =
     (Inl SizeMismatchError,
      [([''d''], Dir), ([''d'', ''p.int''], File (replicate 90 CHR ''a''))]) \<and>
   length (replicate 96 CHR ''a'') = expected_size (\<lambda>t. 1) scenario_descriptor \<and>
   read (\<lambda>t. 1) [([''d''], Dir), ([''d'', ''p.int''], File (replicate 96 CHR ''a''))]
     ''d/p.int'' scenario_descriptor =
     Inr \<lparr>shape = [4, 3], pixels = chunks 8 (replicate 96 CHR ''a'')\<rparr> \<and>
   length (chunks 8 (replicate 96 CHR ''a'')) = 12"
proof -
  have res: "resolve scenario_record =
     Inr \<lparr>crs = ''WGS84'', origin_x = - 119, origin_y = 36,
          pixel_size_x = 1 / 10000, pixel_size_y = - (1 / 10000)\<rparr>"
    by (simp add: resolve_def scenario_keys)
  have bpp: "bytes_per_pixel (pixel_format scenario_descriptor) = 8"
    and sh: "rows scenario_descriptor = 4" "columns scenario_descriptor = 3"
      "is_multi_band scenario_descriptor = False"
    by (simp_all add: scenario_descriptor_def)
  from read_checks_size [where bs = "replicate 90 CHR ''a''" and bc = "\<lambda>t. 1"
      and d = scenario_descriptor and enc = "\<lambda>arr geo t. ''tiff''" and r = scenario_record
      and out = "''o/p.int.tiff''" and ow = True
      and geo = "\<lparr>crs = ''WGS84'', origin_x = - 119, origin_y = 36,
          pixel_size_x = 1 / 10000, pixel_size_y = - (1 / 10000)\<rparr>", OF lookup_scenario]
    read_checks_size [where bs = "replicate 96 CHR ''a''" and bc = "\<lambda>t. 1"
      and d = scenario_descriptor, OF lookup_scenario]
  show ?thesis
    by (simp add: expected_scenario lookup_scenario res bpp sh bands_def prod_eq_iff)
qed

text \<open>
  C3: when the output raster exists and the caller has not permitted overwriting, the
  write step fails with \<open>FileExistsError\<close> and leaves the file system as it was; an
  existing output changes only when the caller permits it, and then it is replaced by
  the new raster.
\<close>

theorem write_respects_overwrite:
  "(path_exists fs path \<and> \<not> ow \<longrightarrow>
      write_raster enc fs arr geo path pt ow = (Inl FileExistsError, fs)) \<and>
   (path_exists fs path \<and>
      lookup (snd (write_raster enc fs arr geo path pt ow)) path \<noteq> lookup fs path \<longrightarrow> ow) \<and>
   (lookup fs path = Some (File old) \<and> path_exists fs (dirname path) \<and> ow \<longrightarrow>
      fst (write_raster enc fs arr geo path pt ow) = Inr path \<and>
      lookup (snd (write_raster enc fs arr geo path pt ow)) path = Some (File (enc arr geo pt)))"
proof (intro conjI impI)
  assume "path_exists fs path \<and> \<not> ow"
  then show "write_raster enc fs arr geo path pt ow = (Inl FileExistsError, fs)"
    by (simp add: write_raster_def)
next
  assume a: "path_exists fs path \<and>
      lookup (snd (write_raster enc fs arr geo path pt ow)) path \<noteq> lookup fs path"
  show ow
  proof (rule ccontr)
    assume "\<not> ow"
    with a have "write_raster enc fs arr geo path pt ow = (Inl FileExistsError, fs)"
      by (simp add: write_raster_def)
    with a show False by simp
  qed
next
  assume a: "lookup fs path = Some (File old) \<and> path_exists fs (dirname path) \<and> ow"
  note f = lookup_File [of fs path old]
  from a f have w: "write_raster enc fs arr geo path pt ow =
      (Inr path, AList.update (components path) (File (enc arr geo pt)) fs)"
    by (simp add: write_raster_def)
  then show "fst (write_raster enc fs arr geo path pt ow) = Inr path" by simp
  from a w lookup_update_file [of fs path old "enc arr geo pt"]
  show "lookup (snd (write_raster enc fs arr geo path pt ow)) path = Some (File (enc arr geo pt))"
    by simp
qed

lemma scenario_files_lookup:
  "lookup scenario_files ''o/p.tiff'' = Some (File ''old'')"
  "path_exists scenario_files ''o/p.tiff''"
  "path_exists scenario_files (dirname ''o/p.tiff'')"
  by code_simp+

theorem write_respects_overwrite_witness:
  "path_exists scenario_files ''o/p.tiff'' \<and>
   write_raster (\<lambda>arr geo t. ''new'') scenario_files \<lparr>shape = [1, 1], pixels = [''abcd'']\<rparr>
     \<lparr>crs = ''WGS84'', origin_x = - 119, origin_y = 36, pixel_size_x = 1, pixel_size_y = - 1\<rparr>
     ''o/p.tiff'' ''hgt'' False = (Inl FileExistsError, scenario_files) \<and>
   lookup scenario_files ''o/p.tiff'' = Some (File ''old'') \<and>
   path_exists scenario_files (dirname ''o/p.tiff'') \<and>
   lookup (snd (write_raster (\<lambda>arr geo t. ''new'') scenario_files
       \<lparr>shape = [1, 1], pixels = [''abcd'']\<rparr>
       \<lparr>crs = ''WGS84'', origin_x = - 119, origin_y = 36, pixel_size_x = 1, pixel_size_y = - 1\<rparr>
       ''o/p.tiff'' ''hgt'' True)) ''o/p.tiff'' = Some (File ''new'')"
  using
    write_respects_overwrite [where fs = scenario_files and path = "''o/p.tiff''"
      and ow = False and enc = "\<lambda>arr geo t. ''new''"
      and arr = "\<lparr>shape = [1, 1], pixels = [''abcd'']\<rparr>" and pt = "''hgt''"
      and geo = "\<lparr>crs = ''WGS84'', origin_x = - 119, origin_y = 36,
                  pixel_size_x = 1, pixel_size_y = - 1\<rparr>"]
    write_respects_overwrite [where fs = scenario_files and path = "''o/p.tiff''"
      and ow = True and enc = "\<lambda>arr geo t. ''new''" and old = "''old''"
      and arr = "\<lparr>shape = [1, 1], pixels = [''abcd'']\<rparr>" and pt = "''hgt''"
      and geo = "\<lparr>crs = ''WGS84'', origin_x = - 119, origin_y = 36,
                  pixel_size_x = 1, pixel_size_y = - 1\<rparr>"]
  by (simp add: scenario_files_lookup)

section \<open>Converting before unzipping\<close>

text \<open>
  C1: a scene with no binary file list, converted with no \<open>binary_dir\<close> argument. The
  code does not raise at line 110 and goes on to create the output directory: on an
  empty file system, a fresh scene with \<open>clean = False\<close> returns normally, having
  created \<open>w/pair\<close> and logged a warning; with \<open>clean = True\<close> it raises \<open>TypeError\<close>
  at line 146, after the directory was created.
\<close>

lemma fresh_pair_paths:
  "join ''w'' [split_first CHR ''.'' (basename ''http://host/pair.zip'')] = ''w/pair''"
  "path_exists [] ''w/pair'' = False"
  "makedirs [] ''w/pair'' = (None, [([''w''], Dir), ([''w'', ''pair''], Dir)])"
  by code_simp+

theorem convert_before_unzip_makes_directory:
  "binary_to_tiffs conv (fresh_scene id ''http://host/pair.zip'' ''w'' False False False)
     \<lparr>files = [], warnings = []\<rparr> None None =
     (None,
      (fresh_scene id ''http://host/pair.zip'' ''w'' False False False)
        \<lparr>out_dir := Some ''w/pair''\<rparr>,
      \<lparr>files = [([''w''], Dir), ([''w'', ''pair''], Dir)],
       warnings = [''No annotation file found for binary files.'']\<rparr>) \<and>
   binary_to_tiffs conv (fresh_scene id ''http://host/pair.zip'' ''w'' True False False)
     \<lparr>files = [], warnings = []\<rparr> None None =
     (Some TypeError,
      (fresh_scene id ''http://host/pair.zip'' ''w'' True False False)
        \<lparr>out_dir := Some ''w/pair''\<rparr>,
      \<lparr>files = [([''w''], Dir), ([''w'', ''pair''], Dir)],
       warnings = [''No annotation file found for binary files.'']\<rparr>)"
  by (simp add: binary_to_tiffs_def list_binaries_def convert_all_def clean_up_def
      fresh_scene_def ensure_dir_def fresh_pair_paths warning_def Let_def)


section \<open>The conversion loop\<close>

declare convert_file.simps [simp del]

lemma convert_file_error:
  "convert_file conv lr dbg odir env f (a, imgs, w) = (Some e, (a', imgs', w')) \<Longrightarrow> imgs' = imgs"
  by (auto simp: convert_file.simps first_item_def
      split: option.splits sum.splits if_splits prod.splits list.splits)

lemma convert_file_ok:
  "convert_file conv lr dbg odir env f (a, imgs, w) = (None, (a', imgs', w')) \<Longrightarrow>
   \<exists>a2 desc arr ty ofp. conv w f odir a2 True dbg = (Inr (desc, arr, ty, ofp), w') \<and>
     imgs' = AList.update ty (new_image lr desc arr ty ofp) imgs"
  by (auto simp: convert_file.simps first_item_def
      split: option.splits sum.splits if_splits prod.splits list.splits) blast+

lemma convert_files_invariant:
  assumes step: "\<And>f w a2 d arr ty ofp w' imgs. I imgs \<Longrightarrow> f \<in> set fs \<Longrightarrow>
      conv w f odir a2 True dbg = (Inr (d, arr, ty, ofp), w') \<Longrightarrow>
      I (AList.update ty (new_image lr d arr ty ofp) imgs)"
    and "I imgs"
    and "convert_files conv lr dbg odir env fs (a, imgs, w) = (er, (a', imgs', w'))"
  shows "I imgs'"
  using assms
proof (induction fs arbitrary: a imgs w)
  case Nil
  then show ?case by simp
next
  case (Cons f fs)
  obtain e1 a1 imgs1 w1 where cf: "convert_file conv lr dbg odir env f (a, imgs, w) = (e1, (a1, imgs1, w1))"
    by (metis prod_cases3)
  show ?case
  proof (cases e1)
    case None
    from convert_file_ok [OF cf [unfolded None]] obtain a2 d arr ty ofp where
      c: "conv w f odir a2 True dbg = (Inr (d, arr, ty, ofp), w1)"
      and i: "imgs1 = AList.update ty (new_image lr d arr ty ofp) imgs"
      by blast
    have I1: "I imgs1" unfolding i by (rule Cons.prems(1) [OF Cons.prems(2) _ c]) simp
    have rest: "convert_files conv lr dbg odir env fs (a1, imgs1, w1) = (er, (a', imgs', w'))"
      using Cons.prems(3) cf None by simp
    show ?thesis
      by (rule Cons.IH [OF _ I1 rest]) (rule Cons.prems(1), simp_all)
  next
    case (Some e)
    with cf Cons.prems(3) have "imgs' = imgs1" by simp
    moreover from cf Some have "imgs1 = imgs" using convert_file_error by blast
    ultimately show ?thesis using Cons.prems(2) by simp
  qed
qed


lemma convert_files_nonempty:
  "convert_files conv lr dbg odir env fs (a, imgs, w) = (None, (a', imgs', w')) \<Longrightarrow>
   fs \<noteq> [] \<Longrightarrow> imgs' \<noteq> []"
proof (induction fs arbitrary: a imgs w)
  case Nil
  then show ?case by simp
next
  case (Cons f fs)
  obtain e1 a1 imgs1 w1 where cf: "convert_file conv lr dbg odir env f (a, imgs, w) = (e1, (a1, imgs1, w1))"
    by (metis prod_cases3)
  with Cons.prems have e1: "e1 = None" by (cases e1) simp_all
  from convert_file_ok [OF cf [unfolded e1]] have ne: "imgs1 \<noteq> []" by auto
  have rest: "convert_files conv lr dbg odir env fs (a1, imgs1, w1) = (None, (a', imgs', w'))"
    using Cons.prems cf e1 by simp
  show ?case
  proof (cases fs)
    case Nil
    with rest ne show ?thesis by simp
  next
    case (Cons g gs)
    with Cons.IH [OF rest] show ?thesis by simp
  qed
qed

lemma list_all_update:
  "P (k, v) \<Longrightarrow> list_all P al \<Longrightarrow> list_all P (AList.update k v al)"
  by (induction al) auto

lemma clean_up_scene: "clean_up s w = (er, s', w') \<Longrightarrow> s' = s"
  by (auto simp: clean_up_def split: if_splits option.splits prod.splits)

lemma list_binaries_scene:
  "list_binaries s w bd = Inr s1 \<Longrightarrow>
   images s1 = images s \<and> low_ram s1 = low_ram s \<and> debug s1 = debug s \<and>
   work_dir s1 = work_dir s \<and> pair_name s1 = pair_name s \<and> clean s1 = clean s \<and>
   tmp_dir s1 = tmp_dir s"
  by (auto simp: list_binaries_def split: option.splits if_splits sum.splits)


lemma binary_to_tiffs_images:
  assumes "binary_to_tiffs conv s w bd ann = (er, s', w')"
  shows "(er \<noteq> None \<and> images s' = images s) \<or>
     (\<exists>s1 w1 er2 a' w2.
        images s1 = images s \<and> low_ram s1 = low_ram s \<and> debug s1 = debug s \<and>
        binary_fps s1 = binary_fps s' \<and>
        convert_all conv s1 w1 (join (work_dir s) [pair_name s]) ann =
          (er2, (a', images s', w2)) \<and>
        (er = None \<longrightarrow> er2 = None))"
proof (cases "list_binaries s w bd")
  case (Inl e)
  with assms have "er = Some e" "s' = s" by (simp_all add: binary_to_tiffs_def)
  then show ?thesis by simp
next
  case (Inr s1)
  note s1 = list_binaries_scene [OF Inr]
  define odir where "odir = join (work_dir s) [pair_name s]"
  with s1 have odir: "join (work_dir s1) [pair_name s1] = odir" by simp
  show ?thesis
  proof (cases "ensure_dir w odir")
    case (Inl x)
    with assms Inr odir have "er = Some (fst x)" "s' = s1"
      by (simp_all add: binary_to_tiffs_def split: prod.splits)
    with s1 show ?thesis by simp
  next
    case w1: (Inr w1)
    obtain er2 a' imgs w2 where ca: "convert_all conv s1 w1 odir ann = (er2, (a', imgs, w2))"
      by (metis prod_cases3)
    show ?thesis
    proof (cases er2)
      case None
      with assms Inr w1 ca odir
      have cu: "clean_up (s1\<lparr>images := imgs, out_dir := Some odir\<rparr>) w2 = (er, s', w')"
        by (simp add: binary_to_tiffs_def)
      from clean_up_scene [OF cu] have "s' = s1\<lparr>images := imgs, out_dir := Some odir\<rparr>" .
      with ca None s1 have "images s1 = images s \<and> low_ram s1 = low_ram s \<and>
          debug s1 = debug s \<and> binary_fps s1 = binary_fps s' \<and>
          convert_all conv s1 w1 odir ann = (er2, (a', images s', w2)) \<and>
          (er = None \<longrightarrow> er2 = None)" by simp
      then show ?thesis unfolding odir_def by blast
    next
      case (Some e)
      with assms Inr w1 ca odir have "er = Some e" "s' = s1\<lparr>images := imgs\<rparr>"
        by (simp_all add: binary_to_tiffs_def)
      with ca s1 have "images s1 = images s \<and> low_ram s1 = low_ram s \<and>
          debug s1 = debug s \<and> binary_fps s1 = binary_fps s' \<and>
          convert_all conv s1 w1 odir ann = (er2, (a', images s', w2)) \<and>
          (er = None \<longrightarrow> er2 = None)" by simp
      then show ?thesis unfolding odir_def by blast
    qed
  qed
qed

lemma convert_all_invariant:
  assumes step: "\<And>f w0 a2 d arr ty ofp w1 imgs. I imgs \<Longrightarrow>
      f \<in> set (filter (\<lambda>f. \<not> str_in ''.ann'' f) (binary_fps s)) \<Longrightarrow>
      conv w0 f odir a2 True (debug s) = (Inr (d, arr, ty, ofp), w1) \<Longrightarrow>
      I (AList.update ty (new_image (low_ram s) d arr ty ofp) imgs)"
    and "I (images s)"
    and "convert_all conv s w odir ann = (er, (a', imgs', w'))"
  shows "I imgs'"
  using assms(3) unfolding convert_all_def Let_def
  by (rule convert_files_invariant [where I = I, rotated 2])
    (rule step, assumption+, rule assms(2))

lemma array_new_image: "(array (new_image lr d arr ty ofp) = None) = lr"
  by (simp add: new_image_def)


lemma run_low_ram:
  "binary_to_tiffs example_convert (example_scene False True two_product_fps) example_world
     None None =
   (None,
    (example_scene False True two_product_fps)
      \<lparr>images := [(''cor'', \<lparr>description = ''ann hh'', array = None,
                      out_fp = ''w/p/p_HH.cor.grd.tiff'', type = ''cor''\<rparr>),
                   (''int'', \<lparr>description = ''ann hh'', array = None,
                      out_fp = ''w/p/p_HH.int.grd.tiff'', type = ''int''\<rparr>)],
       out_dir := Some ''w/p''\<rparr>,
    \<lparr>files = example_files @
       [([''w'', ''p''], Dir),
        ([''w'', ''p'', ''p_HH.cor.grd.tiff''], File ''hh''),
        ([''w'', ''p'', ''p_HH.int.grd.tiff''], File ''hh int'')],
     warnings = []\<rparr>)"
  by code_simp

lemma run_two_products:
  "binary_to_tiffs example_convert (example_scene False False two_product_fps) example_world
     None None =
   (None,
    (example_scene False False two_product_fps)
      \<lparr>images := [(''cor'', \<lparr>description = ''ann hh'', array = Some ''hh'',
                      out_fp = ''w/p/p_HH.cor.grd.tiff'', type = ''cor''\<rparr>),
                   (''int'', \<lparr>description = ''ann hh'', array = Some ''hh int'',
                      out_fp = ''w/p/p_HH.int.grd.tiff'', type = ''int''\<rparr>)],
       out_dir := Some ''w/p''\<rparr>,
    \<lparr>files = example_files @
       [([''w'', ''p''], Dir),
        ([''w'', ''p'', ''p_HH.cor.grd.tiff''], File ''hh''),
        ([''w'', ''p'', ''p_HH.int.grd.tiff''], File ''hh int'')],
     warnings = []\<rparr>)"
  by code_simp

lemma example_scene_fields:
  "images (example_scene cl lr fps) = []" "low_ram (example_scene cl lr fps) = lr"
  "binary_fps (example_scene cl lr fps) = fps" "clean (example_scene cl lr fps) = cl"
  "tmp_dir (example_scene cl lr fps) = Some ''w/tmp/p''"
  "work_dir (example_scene cl lr fps) = ''w''" "pair_name (example_scene cl lr fps) = ''p''"
  by (simp_all add: example_scene_def fresh_scene_def basename_def split_first_def)

text \<open>
  Line 138 passes \<open>overwrite = True\<close>: what a converter does without the permission
  to overwrite has no bearing on the scene.
\<close>

lemma convert_file_overwrite:
  assumes "\<And>w f a. conv w f odir a True dbg = conv' w f odir a True dbg"
  shows "convert_file conv lr dbg odir env f st = convert_file conv' lr dbg odir env f st"
  by (cases st)
    (simp add: convert_file.simps assms cong: option.case_cong sum.case_cong if_cong
      split: prod.splits)

lemma convert_files_overwrite:
  assumes "\<And>w f a. conv w f odir a True dbg = conv' w f odir a True dbg"
  shows "convert_files conv lr dbg odir env fs st = convert_files conv' lr dbg odir env fs st"
proof (induction fs arbitrary: st)
  case Nil
  show ?case by simp
next
  case (Cons f fs)
  have "convert_file conv lr dbg odir env f st = convert_file conv' lr dbg odir env f st"
    by (rule convert_file_overwrite) (rule assms)
  with Cons show ?case by (simp split: prod.splits option.splits)
qed

lemma binary_to_tiffs_overwrite:
  assumes "\<And>w f odir a dbg. conv w f odir a True dbg = conv' w f odir a True dbg"
  shows "binary_to_tiffs conv s w bd ann = binary_to_tiffs conv' s w bd ann"
proof -
  have "convert_files conv lr dbg odir env fs st = convert_files conv' lr dbg odir env fs st"
    for lr dbg odir env fs and st :: "('a, 'b) loop_state"
    by (rule convert_files_overwrite) (rule assms)
  then have "convert_all conv s1 w1 odir ann = convert_all conv' s1 w1 odir ann"
    for s1 :: "('a, 'b) scene" and w1 odir
    by (simp add: convert_all_def Let_def)
  then show ?thesis
    by (simp add: binary_to_tiffs_def Let_def split: sum.splits)
qed

section \<open>Low-memory mode\<close>

text \<open>
  C6: with \<open>low_ram\<close> set, every result stored by the conversion omits the pixel array;
  with \<open>low_ram\<close> not set, every stored result holds it. A conversion that returns,
  of a scene with a binary file, stores a result. Every result in the collection after
  a conversion was there before or is built from what the converter returned for one
  of the scene's binary files: its description, its output path, its product type,
  and its pixel array unless \<open>low_ram\<close> is set.
\<close>

theorem low_ram_omits_array:
  assumes "binary_to_tiffs conv s w bd ann = (er, s', w')"
    and "list_all (\<lambda>e. (array (snd e) = None) = low_ram s) (images s)"
  shows "list_all (\<lambda>e. (array (snd e) = None) = low_ram s) (images s') \<and>
         (er = None \<and> filter (\<lambda>f. \<not> str_in ''.ann'' f) (binary_fps s') \<noteq> [] \<longrightarrow>
            images s' \<noteq> []) \<and>
         list_all
           (\<lambda>e. e \<in> set (images s) \<or>
              (\<exists>w0 f a d arr ofp w1.
                 f \<in> set (filter (\<lambda>f. \<not> str_in ''.ann'' f) (binary_fps s')) \<and>
                 conv w0 f (join (work_dir s) [pair_name s]) a True (debug s) =
                   (Inr (d, arr, fst e, ofp), w1) \<and>
                 snd e = \<lparr>description = d,
                          array = (if low_ram s then None else Some arr),
                          out_fp = ofp, type = fst e\<rparr>))
           (images s')"
proof -
  let ?odir = "join (work_dir s) [pair_name s]"
  let ?P = "\<lambda>e. (array (snd e) = None) = low_ram s"
  let ?Q = "\<lambda>e. e \<in> set (images s) \<or>
      (\<exists>w0 f a d arr ofp w1.
         f \<in> set (filter (\<lambda>f. \<not> str_in ''.ann'' f) (binary_fps s')) \<and>
         conv w0 f ?odir a True (debug s) = (Inr (d, arr, fst e, ofp), w1) \<and>
         snd e = \<lparr>description = d, array = (if low_ram s then None else Some arr),
                  out_fp = ofp, type = fst e\<rparr>)"
  from binary_to_tiffs_images [OF assms(1)]
  consider (early) "er \<noteq> None" "images s' = images s"
    | (loop) s1 w1 er2 a' w2 where "images s1 = images s" "low_ram s1 = low_ram s"
        "debug s1 = debug s" "binary_fps s1 = binary_fps s'"
        "convert_all conv s1 w1 ?odir ann = (er2, (a', images s', w2))"
        "er = None \<longrightarrow> er2 = None"
    by blast
  then show ?thesis
  proof cases
    case early
    have "list_all ?Q (images s)" by (simp add: list_all_iff)
    with early assms(2) show ?thesis by auto
  next
    case loop
    have p: "list_all ?P (images s')"
    proof (rule convert_all_invariant [OF _ _ loop(5)])
      fix d arr ty ofp and imgs :: "(string \<times> ('a, 'b) image) list"
      assume "list_all ?P imgs"
      then show "list_all ?P (AList.update ty (new_image (low_ram s1) d arr ty ofp) imgs)"
        by (intro list_all_update) (simp_all add: array_new_image loop(2))
    next
      show "list_all ?P (images s1)" using assms(2) loop(1) by simp
    qed
    have q: "list_all ?Q (images s')"
    proof (rule convert_all_invariant [OF _ _ loop(5)])
      fix f w0 a2 d arr ty ofp w1' and imgs :: "(string \<times> ('a, 'b) image) list"
      assume i: "list_all ?Q imgs"
        and f: "f \<in> set (filter (\<lambda>f. \<not> str_in ''.ann'' f) (binary_fps s1))"
        and c: "conv w0 f ?odir a2 True (debug s1) = (Inr (d, arr, ty, ofp), w1')"
      from f c have "f \<in> set (filter (\<lambda>f. \<not> str_in ''.ann'' f) (binary_fps s')) \<and>
          conv w0 f ?odir a2 True (debug s) =
            (Inr (d, arr, fst (ty, new_image (low_ram s1) d arr ty ofp), ofp), w1') \<and>
          snd (ty, new_image (low_ram s1) d arr ty ofp) =
            \<lparr>description = d, array = (if low_ram s then None else Some arr),
             out_fp = ofp, type = fst (ty, new_image (low_ram s1) d arr ty ofp)\<rparr>"
        by (simp add: new_image_def loop(2,3,4))
      then have "?Q (ty, new_image (low_ram s1) d arr ty ofp)" by blast
      with i show "list_all ?Q (AList.update ty (new_image (low_ram s1) d arr ty ofp) imgs)"
        by (intro list_all_update)
    next
      show "list_all ?Q (images s1)" by (simp add: loop(1) list_all_iff)
    qed
    have "images s' \<noteq> []"
      if "er = None" "filter (\<lambda>f. \<not> str_in ''.ann'' f) (binary_fps s') \<noteq> []"
      using loop(5,6) that unfolding convert_all_def Let_def loop(4)
      by (auto dest: convert_files_nonempty)
    with p q show ?thesis by blast
  qed
qed

theorem low_ram_omits_array_witness:
  "list_all (\<lambda>e. (array (snd e) = None) = True)
     (images (fst (snd (binary_to_tiffs example_convert
        (example_scene False True two_product_fps) example_world None None)))) \<and>
   images (fst (snd (binary_to_tiffs example_convert
        (example_scene False True two_product_fps) example_world None None))) \<noteq> [] \<and>
   list_all (\<lambda>e. (array (snd e) = None) = False)
     (images (fst (snd (binary_to_tiffs example_convert
        (example_scene False False two_product_fps) example_world None None)))) \<and>
   images (fst (snd (binary_to_tiffs example_convert
        (example_scene False False two_product_fps) example_world None None))) =
     [(''cor'', \<lparr>description = ''ann hh'', array = Some ''hh'',
                 out_fp = ''w/p/p_HH.cor.grd.tiff'', type = ''cor''\<rparr>),
      (''int'', \<lparr>description = ''ann hh'', array = Some ''hh int'',
                 out_fp = ''w/p/p_HH.int.grd.tiff'', type = ''int''\<rparr>)]"
proof -
  have ne: "filter (\<lambda>f. \<not> str_in ''.ann'' f) two_product_fps \<noteq> []"
    by (simp add: two_product_fps_def)
  from low_ram_omits_array [OF run_low_ram] low_ram_omits_array [OF run_two_products] ne
  show ?thesis by (simp add: example_scene_fields run_low_ram run_two_products)
qed

section \<open>The result collection\<close>











section \<open>A missing annotation file\<close>











end
